theory Spec2Isabelle
  imports Main
begin

section \<open>Family file sharing: upload, list and delete endpoints, upload widget\<close>

text \<open>
  A shallow embedding of the three route handlers (\<^verbatim>\<open>POST /api/upload\<close>,
  \<^verbatim>\<open>GET /api/files\<close>, \<^verbatim>\<open>DELETE /api/upload/[id]\<close>) and of the state updates of the
  two \<^verbatim>\<open>FileUpload\<close> components. Strings are byte strings; a file name is a
  \<^typ>\<open>string\<close>, and \<^verbatim>\<open>'.'\<close> is the single byte \<^term>\<open>CHR ''.''\<close>.
\<close>

subsection \<open>JavaScript string and array helpers\<close>

text \<open>
  \<^verbatim>\<open>s.split(sep)\<close> for a one-character separator: the pieces between the occurrences
  of the separator, so the result is never empty (\<^verbatim>\<open>''.split('.')\<close> is \<^verbatim>\<open>['']\<close>).
  The second branch of the \<^verbatim>\<open>case\<close> is there for totality only.
\<close>

fun split :: "char \<Rightarrow> string \<Rightarrow> string list" where
  "split sep [] = [[]]"
| "split sep (c # cs) =
     (if c = sep then [] # split sep cs
      else (case split sep cs of
              w # ws \<Rightarrow> (c # w) # ws
            | [] \<Rightarrow> [[c]]))"

text \<open>\<^verbatim>\<open>parts.join(sep)\<close>: the empty array joins to the empty string.\<close>

fun join :: "char \<Rightarrow> string list \<Rightarrow> string" where
  "join sep [] = []"
| "join sep [w] = w"
| "join sep (w # v # ws) = w @ sep # join sep (v # ws)"

text \<open>
  \<^verbatim>\<open>parts.pop()\<close>: the removed last element (\<^verbatim>\<open>undefined\<close>, here \<^term>\<open>None\<close>, on an
  empty array) together with the array that is left.
\<close>

definition pop :: "'a list \<Rightarrow> 'a option \<times> 'a list" where
  "pop xs = (if xs = [] then (None, []) else (Some (last xs), butlast xs))"

text \<open>
  \<^verbatim>\<open>s.toLowerCase()\<close> on the ASCII letters. Bytes outside \<^verbatim>\<open>A-Z\<close> are left alone; no
  character outside ASCII lower-cases to a letter that occurs in the extension table.
\<close>

definition lower_char :: "char \<Rightarrow> char" where
  "lower_char c =
     (let n = (of_char c :: nat) in if 65 \<le> n \<and> n \<le> 90 then char_of (n + 32) else c)"

definition toLowerCase :: "string \<Rightarrow> string" where
  "toLowerCase s = map lower_char s"

text \<open>\<^verbatim>\<open>s.startsWith(p)\<close>.\<close>

fun startsWith :: "string \<Rightarrow> string \<Rightarrow> bool" where
  "startsWith s [] = True"
| "startsWith [] (p # ps) = False"
| "startsWith (c # cs) (p # ps) = (c = p \<and> startsWith cs ps)"

text \<open>\<^verbatim>\<open>xs.includes(x)\<close>.\<close>

definition array_includes :: "'a list \<Rightarrow> 'a \<Rightarrow> bool" where
  "array_includes xs x = (x \<in> set xs)"

subsection \<open>Type inference of the List Endpoint\<close>

text \<open>\<^verbatim>\<open>getFileType\<close>, branch by branch.\<close>

definition getFileType :: "string \<Rightarrow> string" where
  "getFileType extension =
     (let ext = toLowerCase extension in
      if array_includes [''jpg'', ''jpeg'', ''png'', ''gif'', ''webp''] ext
        then ''image/'' @ (if ext = ''jpg'' then ''jpeg'' else ext)
      else if ext = ''pdf'' then ''application/pdf''
      else if array_includes [''txt'', ''md''] ext then ''text/plain''
      else if ext = ''doc'' then ''application/msword''
      else if ext = ''docx''
        then ''application/vnd.openxmlformats-officedocument.wordprocessingml.document''
      else ''application/octet-stream'')"

text \<open>
  The decomposition of a stored file name in the List Endpoint:
  \<^verbatim>\<open>parts = fileName.split('.')\<close>, \<^verbatim>\<open>extension = parts.pop()\<close>, \<^verbatim>\<open>id = parts.join('.')\<close>.
  The result is the pair of \<^verbatim>\<open>id\<close> and \<^verbatim>\<open>extension\<close>.
\<close>

definition split_name :: "string \<Rightarrow> string \<times> string option" where
  "split_name fileName =
     (let parts = split (CHR ''.'') fileName;
          (extension, parts') = pop parts;
          ident = join (CHR ''.'') parts'
      in (ident, extension))"

text \<open>\<^verbatim>\<open>extension || ''\<close>: \<^verbatim>\<open>undefined\<close> and the empty string both give the empty string.\<close>

definition or_empty :: "string option \<Rightarrow> string" where
  "or_empty x = (case x of None \<Rightarrow> [] | Some s \<Rightarrow> s)"

text \<open>
  The lookup table as the specification words it: extension to MIME type, every other
  extension mapped to the generic binary type.
\<close>

definition mime_table :: "(string \<times> string) list" where
  "mime_table =
     [(''jpg'', ''image/jpeg''), (''jpeg'', ''image/jpeg''), (''png'', ''image/png''),
      (''gif'', ''image/gif''), (''webp'', ''image/webp''), (''pdf'', ''application/pdf''),
      (''txt'', ''text/plain''), (''md'', ''text/plain''), (''doc'', ''application/msword''),
      (''docx'', ''application/vnd.openxmlformats-officedocument.wordprocessingml.document'')]"

definition mime_lookup :: "string \<Rightarrow> string" where
  "mime_lookup ext =
     (case map_of mime_table ext of None \<Rightarrow> ''application/octet-stream'' | Some t \<Rightarrow> t)"

subsection \<open>The Storage Directory\<close>

text \<open>
  The handlers reach the disk through \<^verbatim>\<open>fs/promises\<close> only. The directory
  \<^verbatim>\<open>public/uploads\<close> is modelled as the list of its entries in the order \<^verbatim>\<open>readdir\<close>
  reports them (\<^term>\<open>None\<close> when the directory does not exist). An entry is a regular
  file or a symbolic link whose target is gone (\<^verbatim>\<open>stat\<close> follows links, so it fails on
  such an entry). \<^verbatim>\<open>readdir\<close> reports the names in byte order, so the entries of a
  directory are kept in that order. A read-only file system refuses every write and
  every removal. A rejected promise is a value \<^term>\<open>Inl e\<close>.

  A name with a slash in it is a path that leaves the flat directory: \<^verbatim>\<open>join\<close>
  resolves it, and it may end below the directory, back in it or above it. What a write
  to such a path comes to depends on the rest of the disk; the storage carries it as
  \<^verbatim>\<open>beyond\<close>: the exception thrown, or the entries of the directory after the write.
\<close>

datatype js_error = ENOENT | EACCES | EISDIR | ENAMETOOLONG | TypeError

datatype node = RegularFile string int | DanglingLink

record storage =
  dir :: "(string \<times> node) list option"
  read_only :: bool
  beyond :: "string \<Rightarrow> string \<Rightarrow> int \<Rightarrow> js_error + (string \<times> node) list"

record stats =
  st_size :: nat
  st_birthtime :: int

definition readdir :: "storage \<Rightarrow> js_error + string list" where
  "readdir fs = (case dir fs of None \<Rightarrow> Inl ENOENT | Some es \<Rightarrow> Inr (map fst es))"

definition stat :: "storage \<Rightarrow> string \<Rightarrow> js_error + stats" where
  "stat fs name =
     (case dir fs of
        None \<Rightarrow> Inl ENOENT
      | Some es \<Rightarrow>
          (case map_of es name of
             None \<Rightarrow> Inl ENOENT
           | Some DanglingLink \<Rightarrow> Inl ENOENT
           | Some (RegularFile bytes t) \<Rightarrow> Inr \<lparr>st_size = length bytes, st_birthtime = t\<rparr>))"

definition unlink :: "storage \<Rightarrow> string \<Rightarrow> js_error + storage" where
  "unlink fs name =
     (case dir fs of
        None \<Rightarrow> Inl ENOENT
      | Some es \<Rightarrow>
          if name \<notin> set (map fst es) then Inl ENOENT
          else if read_only fs then Inl EACCES
          else Inr (fs\<lparr>dir := Some (filter (\<lambda>e. fst e \<noteq> name) es)\<rparr>))"

text \<open>\<^verbatim>\<open>mkdir(uploadDir, { recursive: true })\<close>: no error when the directory is there.\<close>

definition mkdir :: "storage \<Rightarrow> js_error + storage" where
  "mkdir fs =
     (case dir fs of
        Some es \<Rightarrow> Inr fs
      | None \<Rightarrow> if read_only fs then Inl EACCES else Inr (fs\<lparr>dir := Some []\<rparr>))"

text \<open>The byte order of names, as \<^verbatim>\<open>strcmp\<close> has it.\<close>

fun name_less :: "string \<Rightarrow> string \<Rightarrow> bool" where
  "name_less [] [] = False"
| "name_less [] (y # ys) = True"
| "name_less (x # xs) [] = False"
| "name_less (x # xs) (y # ys) =
     ((of_char x :: nat) < of_char y \<or> (x = y \<and> name_less xs ys))"

text \<open>
  Writing under a name of the directory: an existing entry keeps its place and, when it
  is a regular file, its creation time, and gets the new content; a new name goes to its
  place in the byte order, with the clock's time.
\<close>

fun overwrite_entry :: "string \<Rightarrow> string \<Rightarrow> int \<Rightarrow> (string \<times> node) list \<Rightarrow> (string \<times> node) list" where
  "overwrite_entry name bytes now [] = []"
| "overwrite_entry name bytes now ((n, nd) # es) =
     (if n = name
      then (n, (case nd of RegularFile old t \<Rightarrow> RegularFile bytes t
                         | DanglingLink \<Rightarrow> RegularFile bytes now)) # es
      else (n, nd) # overwrite_entry name bytes now es)"

fun insert_entry :: "string \<times> node \<Rightarrow> (string \<times> node) list \<Rightarrow> (string \<times> node) list" where
  "insert_entry e [] = [e]"
| "insert_entry e (x # xs) =
     (if name_less (fst e) (fst x) then e # x # xs else x # insert_entry e xs)"

definition write_entry :: "string \<Rightarrow> string \<Rightarrow> int \<Rightarrow> (string \<times> node) list \<Rightarrow> (string \<times> node) list" where
  "write_entry name bytes now es =
     (if name \<in> set (map fst es) then overwrite_entry name bytes now es
      else insert_entry (name, RegularFile bytes now) es)"

text \<open>
  \<^verbatim>\<open>writeFile(join(uploadDir, name), buffer)\<close>. A zero byte in the path is refused
  before the disk is asked. A name with a slash is a path out of the flat directory
  (\<^verbatim>\<open>beyond\<close>). The empty name and the dot names are directories. A name of more
  than 255 bytes is too long for an entry.
\<close>

definition writeFile :: "storage \<Rightarrow> string \<Rightarrow> string \<Rightarrow> int \<Rightarrow> js_error + storage" where
  "writeFile fs name bytes now =
     (if CHR 0x00 \<in> set name then Inl TypeError
      else if read_only fs then Inl EACCES
      else if CHR ''/'' \<in> set name
        then (case beyond fs name bytes now of
                Inl e \<Rightarrow> Inl e
              | Inr es \<Rightarrow> Inr (fs\<lparr>dir := Some es\<rparr>))
      else if name = [] \<or> name = ''.'' \<or> name = ''..'' then Inl EISDIR
      else if 255 < length name then Inl ENAMETOOLONG
      else (case dir fs of
              None \<Rightarrow> Inl ENOENT
            | Some es \<Rightarrow> Inr (fs\<lparr>dir := Some (write_entry name bytes now es)\<rparr>)))"

text \<open>
  \<^verbatim>\<open>try { await mkdir(uploadDir, { recursive: true }) } catch { }\<close>: the directory is
  created when it can be, and a failure is ignored.
\<close>

definition ensure_dir :: "storage \<Rightarrow> storage" where
  "ensure_dir fs = (case mkdir fs of Inl e \<Rightarrow> fs | Inr fs' \<Rightarrow> fs')"

subsection \<open>Upload Endpoint\<close>

text \<open>
  The browser's \<^verbatim>\<open>File\<close>: name, declared type and content; \<^verbatim>\<open>file.size\<close> is the number
  of bytes of the content.
\<close>

record upload_file =
  file_name :: string
  file_type :: string
  file_bytes :: string

definition file_size :: "upload_file \<Rightarrow> nat" where
  "file_size f = length (file_bytes f)"

text \<open>
  \<^verbatim>\<open>data.get('file')\<close> is \<^verbatim>\<open>null\<close>, a string or a \<^verbatim>\<open>File\<close>; \<^verbatim>\<open>request.formData()\<close>
  rejects on a body that is not a form.
\<close>

datatype form_entry = StringEntry string | FileEntry upload_file

datatype request = BadBody | Form "form_entry option"

record upload_info =
  u_id :: string
  u_filename :: string
  u_originalName :: string
  u_url :: string
  u_size :: nat
  u_type :: string
  u_uploadedAt :: int

datatype upload_response = UploadOk upload_info | UploadError nat string

definition allowedTypes :: "string list" where
  "allowedTypes =
     [''image/jpeg'', ''image/png'', ''image/gif'', ''image/webp'',
      ''application/pdf'',
      ''text/plain'', ''text/markdown'',
      ''application/msword'',
      ''application/vnd.openxmlformats-officedocument.wordprocessingml.document'']"

text \<open>A value inside a template literal: \<^verbatim>\<open>undefined\<close> prints as that word.\<close>

definition template :: "string option \<Rightarrow> string" where
  "template x = (case x of None \<Rightarrow> ''undefined'' | Some s \<Rightarrow> s)"

text \<open>
  The body of the \<^verbatim>\<open>try\<close> block of \<^verbatim>\<open>POST\<close>. \<^verbatim>\<open>uuid\<close> is the value \<^verbatim>\<open>uuidv4()\<close>
  returns and \<^verbatim>\<open>now\<close> the clock (milliseconds); both come from outside. A string in
  the \<^verbatim>\<open>file\<close> field has neither \<^verbatim>\<open>size\<close> nor \<^verbatim>\<open>type\<close>: the size test is false on
  \<^verbatim>\<open>undefined\<close> and the type test fails. The result is the response, or the exception
  thrown, with the storage as it is then.
\<close>

definition POST_try :: "request \<Rightarrow> string \<Rightarrow> int \<Rightarrow> storage \<Rightarrow> (js_error + upload_response) \<times> storage" where
  "POST_try req uuid now fs =
     (case req of
        BadBody \<Rightarrow> (Inl TypeError, fs)
      | Form None \<Rightarrow> (Inr (UploadError 400 ''No file received.''), fs)
      | Form (Some (StringEntry s)) \<Rightarrow>
          if s = [] then (Inr (UploadError 400 ''No file received.''), fs)
          else (Inr (UploadError 400 ''File type not allowed.''), fs)
      | Form (Some (FileEntry file)) \<Rightarrow>
          if file_size file > 10 * 1024 * 1024
            then (Inr (UploadError 400 ''File too large. Max size is 10MB.''), fs)
          else if \<not> array_includes allowedTypes (file_type file)
            then (Inr (UploadError 400 ''File type not allowed.''), fs)
          else
            let fileId = uuid;
                fileExtension = fst (pop (split (CHR ''.'') (file_name file)));
                fileName = fileId @ ''.'' @ template fileExtension;
                fs1 = ensure_dir fs
            in (case writeFile fs1 fileName (file_bytes file) now of
                  Inl e \<Rightarrow> (Inl e, fs1)
                | Inr fs2 \<Rightarrow>
                    (Inr (UploadOk \<lparr>u_id = fileId, u_filename = fileName,
                            u_originalName = file_name file,
                            u_url = ''/uploads/'' @ fileName,
                            u_size = file_size file, u_type = file_type file,
                            u_uploadedAt = now\<rparr>), fs2)))"

definition POST :: "request \<Rightarrow> string \<Rightarrow> int \<Rightarrow> storage \<Rightarrow> upload_response \<times> storage" where
  "POST req uuid now fs =
     (case POST_try req uuid now fs of
        (Inl e, fs') \<Rightarrow> (UploadError 500 ''Upload failed.'', fs')
      | (Inr r, fs') \<Rightarrow> (r, fs'))"

subsection \<open>List Endpoint\<close>

record file_descriptor =
  fd_id :: string
  fd_fileName :: string
  fd_originalName :: string
  fd_size :: nat
  fd_uploadedAt :: int
  fd_url :: string
  fd_type :: string

datatype list_response = ListOk "file_descriptor list" | ListError nat string

text \<open>The object built for one directory entry once \<^verbatim>\<open>stat\<close> has answered.\<close>

definition descriptor :: "string \<Rightarrow> stats \<Rightarrow> file_descriptor" where
  "descriptor fileName st =
     (let (ident, extension) = split_name fileName
      in \<lparr>fd_id = ident, fd_fileName = fileName, fd_originalName = fileName,
          fd_size = st_size st, fd_uploadedAt = st_birthtime st,
          fd_url = ''/uploads/'' @ fileName,
          fd_type = getFileType (or_empty extension)\<rparr>)"

text \<open>The callback of \<^verbatim>\<open>files.map\<close>: \<^verbatim>\<open>null\<close> (here \<^term>\<open>None\<close>) when \<^verbatim>\<open>stat\<close> throws.\<close>

definition describe_entry :: "storage \<Rightarrow> string \<Rightarrow> file_descriptor option" where
  "describe_entry fs fileName =
     (case stat fs fileName of Inl e \<Rightarrow> None | Inr st \<Rightarrow> Some (descriptor fileName st))"

text \<open>
  \<^verbatim>\<open>Array.prototype.sort\<close> with a comparison function is stable; for a consistent
  comparison its result is the one of insertion from the right, where an element goes in
  front of the first one it does not compare greater than.
\<close>

fun insert_cmp :: "('a \<Rightarrow> 'a \<Rightarrow> int) \<Rightarrow> 'a \<Rightarrow> 'a list \<Rightarrow> 'a list" where
  "insert_cmp cmp x [] = [x]"
| "insert_cmp cmp x (y # ys) =
     (if cmp x y \<le> 0 then x # y # ys else y # insert_cmp cmp x ys)"

fun sort_cmp :: "('a \<Rightarrow> 'a \<Rightarrow> int) \<Rightarrow> 'a list \<Rightarrow> 'a list" where
  "sort_cmp cmp [] = []"
| "sort_cmp cmp (x # xs) = insert_cmp cmp x (sort_cmp cmp xs)"

text \<open>\<^verbatim>\<open>(a, b) => new Date(b.uploadedAt).getTime() - new Date(a.uploadedAt).getTime()\<close>\<close>

definition newest_first :: "file_descriptor \<Rightarrow> file_descriptor \<Rightarrow> int" where
  "newest_first a b = fd_uploadedAt b - fd_uploadedAt a"

text \<open>\<^verbatim>\<open>fileList.filter(file => file !== null)\<close>\<close>

fun drop_nulls :: "'a option list \<Rightarrow> 'a list" where
  "drop_nulls [] = []"
| "drop_nulls (None # xs) = drop_nulls xs"
| "drop_nulls (Some x # xs) = x # drop_nulls xs"

text \<open>
  \<^verbatim>\<open>GET\<close>: the inner \<^verbatim>\<open>catch\<close> answers the empty list whenever \<^verbatim>\<open>readdir\<close> throws.
  Nothing that is modelled throws outside the inner \<^verbatim>\<open>try\<close>, so the answer
  \<^verbatim>\<open>500\<close> of the outer \<^verbatim>\<open>catch\<close> has no branch here.
\<close>

definition GET :: "storage \<Rightarrow> list_response" where
  "GET fs =
     (case readdir fs of
        Inl e \<Rightarrow> ListOk []
      | Inr files \<Rightarrow>
          let fileList = map (describe_entry fs) files;
              validFiles = sort_cmp newest_first (drop_nulls fileList)
          in ListOk validFiles)"

subsection \<open>Delete Endpoint\<close>

datatype delete_response = DeleteOk string | DeleteError nat string

text \<open>The test \<^verbatim>\<open>if (fileToDelete)\<close>: \<^verbatim>\<open>undefined\<close> and the empty string are false.\<close>

definition truthy :: "string option \<Rightarrow> bool" where
  "truthy x = (case x of None \<Rightarrow> False | Some s \<Rightarrow> s \<noteq> [])"

text \<open>The inner \<^verbatim>\<open>try\<close> block of \<^verbatim>\<open>DELETE\<close>: the response, or the exception thrown.\<close>

definition DELETE_try :: "string \<Rightarrow> storage \<Rightarrow> (js_error + delete_response) \<times> storage" where
  "DELETE_try fileId fs =
     (case readdir fs of
        Inl e \<Rightarrow> (Inl e, fs)
      | Inr files \<Rightarrow>
          let fileToDelete = List.find (\<lambda>file. startsWith file fileId) files
          in if truthy fileToDelete
             then (case unlink fs (the fileToDelete) of
                     Inl e \<Rightarrow> (Inl e, fs)
                   | Inr fs' \<Rightarrow> (Inr (DeleteOk ''File deleted successfully''), fs'))
             else (Inr (DeleteError 404 ''File not found''), fs))"

text \<open>
  \<^verbatim>\<open>DELETE\<close>: \<^verbatim>\<open>params\<close> is the outcome of \<^verbatim>\<open>await context.params\<close>. An exception of
  the inner block is answered by the inner \<^verbatim>\<open>catch\<close>; the outer \<^verbatim>\<open>catch\<close> sees only a
  rejected \<^verbatim>\<open>params\<close>.
\<close>

definition DELETE :: "js_error + string \<Rightarrow> storage \<Rightarrow> delete_response \<times> storage" where
  "DELETE params fs =
     (case params of
        Inl e \<Rightarrow> (DeleteError 500 ''Delete failed.'', fs)
      | Inr fileId \<Rightarrow>
          (case DELETE_try fileId fs of
             (Inl e, fs') \<Rightarrow> (DeleteError 404 ''File not found or already deleted'', fs')
           | (Inr r, fs') \<Rightarrow> (r, fs')))"

subsection \<open>Upload Widget, the variant that uses \<^verbatim>\<open>fetch\<close>\<close>

text \<open>
  The component keeps the displayed list and, per file name, a transient status. A
  pending \<^verbatim>\<open>setTimeout\<close> is kept as the file name its callback will clear.
\<close>

datatype status = Idle | Uploading | Success | Error

record UploadStatus =
  us_status :: status
  us_progress :: nat
  us_message :: "string option"

record UploadedFile =
  uf_id :: string
  uf_fileName :: string
  uf_originalName :: string
  uf_size :: nat
  uf_type :: string
  uf_url :: string
  uf_uploadedAt :: int

record widget =
  uploadedFiles :: "UploadedFile list"
  uploadStatuses :: "string \<rightharpoonup> UploadStatus"
  timers :: "string list"

text \<open>The parsed body of a \<^verbatim>\<open>2xx\<close> answer; \<^verbatim>\<open>uploadedAt\<close> may be missing.\<close>

record upload_result =
  r_id :: string
  r_filename :: string
  r_originalName :: string
  r_url :: string
  r_uploadedAt :: "int option"

text \<open>
  What \<^verbatim>\<open>await fetch(...)\<close> and the reading of the body come to: the request is
  rejected; the answer is \<^verbatim>\<open>ok\<close> with a body that parses or does not; the answer is not
  \<^verbatim>\<open>ok\<close>, with the \<^verbatim>\<open>error\<close> field of its body when there is one.
\<close>

datatype fetch_outcome =
    NetworkError
  | OkJson upload_result
  | OkNotJson
  | NotOk "string option"

text \<open>\<^verbatim>\<open>errorData.error || 'Upload failed'\<close>\<close>

definition error_message :: "string option \<Rightarrow> string" where
  "error_message e =
     (case e of None \<Rightarrow> ''Upload failed''
              | Some m \<Rightarrow> if m = [] then ''Upload failed'' else m)"

text \<open>The first statement of \<^verbatim>\<open>onDrop\<close>: every accepted file starts as uploading, at 50.\<close>

fun initialStatuses :: "upload_file list \<Rightarrow> (string \<rightharpoonup> UploadStatus) \<Rightarrow> (string \<rightharpoonup> UploadStatus)" where
  "initialStatuses [] m = m"
| "initialStatuses (file # files) m =
     initialStatuses files
       (m(file_name file \<mapsto> \<lparr>us_status = Uploading, us_progress = 50, us_message = None\<rparr>))"

definition onDrop_begin :: "upload_file list \<Rightarrow> widget \<Rightarrow> widget" where
  "onDrop_begin acceptedFiles w =
     w\<lparr>uploadStatuses := uploadStatuses w ++ initialStatuses acceptedFiles Map.empty\<rparr>"

text \<open>
  One round of the loop of \<^verbatim>\<open>onDrop\<close>, from the outcome of the request on. An
  exception inside the \<^verbatim>\<open>try\<close> (a rejected \<^verbatim>\<open>fetch\<close>, a \<^verbatim>\<open>2xx\<close> body that does not
  parse) ends in the \<^verbatim>\<open>catch\<close>.
\<close>

definition onDrop_file :: "upload_file \<Rightarrow> fetch_outcome \<Rightarrow> int \<Rightarrow> widget \<Rightarrow> widget" where
  "onDrop_file file outcome now w =
     (case outcome of
        OkJson result \<Rightarrow>
          let newFile = \<lparr>uf_id = r_id result, uf_fileName = r_filename result,
                         uf_originalName = r_originalName result,
                         uf_size = file_size file, uf_type = file_type file,
                         uf_url = r_url result,
                         uf_uploadedAt = (case r_uploadedAt result of None \<Rightarrow> now | Some t \<Rightarrow> t)\<rparr>
          in w\<lparr>uploadStatuses := (uploadStatuses w)(file_name file \<mapsto>
                  \<lparr>us_status = Success, us_progress = 100, us_message = Some ''Upload complete!''\<rparr>),
               uploadedFiles := newFile # uploadedFiles w,
               timers := timers w @ [file_name file]\<rparr>
      | NotOk e \<Rightarrow>
          w\<lparr>uploadStatuses := (uploadStatuses w)(file_name file \<mapsto>
               \<lparr>us_status = Error, us_progress = 0, us_message = Some (error_message e)\<rparr>)\<rparr>
      | _ \<Rightarrow>
          w\<lparr>uploadStatuses := (uploadStatuses w)(file_name file \<mapsto>
               \<lparr>us_status = Error, us_progress = 0, us_message = Some ''Upload failed''\<rparr>)\<rparr>)"

fun onDrop_loop :: "(upload_file \<times> fetch_outcome \<times> int) list \<Rightarrow> widget \<Rightarrow> widget" where
  "onDrop_loop [] w = w"
| "onDrop_loop ((file, outcome, now) # rest) w = onDrop_loop rest (onDrop_file file outcome now w)"

definition onDrop :: "(upload_file \<times> fetch_outcome \<times> int) list \<Rightarrow> widget \<Rightarrow> widget" where
  "onDrop uploads w = onDrop_loop uploads (onDrop_begin (map fst uploads) w)"

text \<open>
  The callback of \<^verbatim>\<open>setTimeout(..., 2000)\<close> for a file name: the entry of that name is
  deleted from the statuses, whatever it holds by then. The timer that fires is the
  oldest one pending for the name.
\<close>

definition timeout_fires :: "string \<Rightarrow> widget \<Rightarrow> widget" where
  "timeout_fires name w =
     (if name \<in> set (timers w)
      then w\<lparr>uploadStatuses := (uploadStatuses w)(name := None),
             timers := remove1 name (timers w)\<rparr>
      else w)"

fun timeouts_fire :: "string list \<Rightarrow> widget \<Rightarrow> widget" where
  "timeouts_fire [] w = w"
| "timeouts_fire (name # names) w = timeouts_fire names (timeout_fires name w)"

subsection \<open>Upload Widget, the variant that uses \<^verbatim>\<open>XMLHttpRequest\<close>\<close>

record xhr_file =
  xf_id :: string
  xf_name :: string
  xf_size :: nat
  xf_type :: string
  xf_url :: string
  xf_uploadedAt :: int

record xhr_widget =
  files :: "xhr_file list"
  uploadProgress :: "string \<rightharpoonup> nat"

record xhr_response =
  x_id :: string
  x_url :: string

text \<open>
  The listener of \<^verbatim>\<open>load\<close>: \<^verbatim>\<open>code\<close> is \<^verbatim>\<open>xhr.status\<close>, \<^verbatim>\<open>body\<close> the result of
  \<^verbatim>\<open>JSON.parse(xhr.responseText)\<close> (\<^term>\<open>None\<close> when it throws, which ends the listener).
  There is no listener for a failed request, and none of the branches records a status.
\<close>

definition xhr_load :: "upload_file \<Rightarrow> nat \<Rightarrow> xhr_response option \<Rightarrow> int \<Rightarrow> xhr_widget \<Rightarrow> xhr_widget" where
  "xhr_load file code body now w =
     (if code = 200 then
        (case body of
           None \<Rightarrow> w
         | Some response \<Rightarrow>
             let newFile = \<lparr>xf_id = x_id response, xf_name = file_name file,
                            xf_size = file_size file, xf_type = file_type file,
                            xf_url = x_url response, xf_uploadedAt = now\<rparr>
             in w\<lparr>files := files w @ [newFile],
                  uploadProgress := (uploadProgress w)(file_name file := None)\<rparr>)
      else w)"

subsection \<open>Notions of the specification\<close>




text \<open>An upload has failed unless the answer was \<^verbatim>\<open>ok\<close> and its body could be read.\<close>

definition failed :: "fetch_outcome \<Rightarrow> bool" where
  "failed outcome = (case outcome of OkJson result \<Rightarrow> False | _ \<Rightarrow> True)"

subsection \<open>Sample states\<close>

definition no_path :: "string \<Rightarrow> string \<Rightarrow> int \<Rightarrow> js_error + (string \<times> node) list" where
  "no_path name bytes now = Inl ENOENT"

definition sample_storage :: storage where
  "sample_storage =
     \<lparr>dir = Some [(''a1.txt'', RegularFile ''hello'' 100), (''b2.PNG'', RegularFile ''xy'' 300),
                  (''c3.tar.gz'', RegularFile [] 200), (''gone.lnk'', DanglingLink)],
      read_only = False, beyond = no_path\<rparr>"

definition png_descriptor :: file_descriptor where
  "png_descriptor =
     \<lparr>fd_id = ''b2'', fd_fileName = ''b2.PNG'', fd_originalName = ''b2.PNG'', fd_size = 2,
      fd_uploadedAt = 300, fd_url = ''/uploads/b2.PNG'', fd_type = ''image/png''\<rparr>"

definition sample_listing :: "file_descriptor list" where
  "sample_listing =
     [png_descriptor,
      \<lparr>fd_id = ''c3.tar'', fd_fileName = ''c3.tar.gz'', fd_originalName = ''c3.tar.gz'',
       fd_size = 0, fd_uploadedAt = 200, fd_url = ''/uploads/c3.tar.gz'',
       fd_type = ''application/octet-stream''\<rparr>,
      \<lparr>fd_id = ''a1'', fd_fileName = ''a1.txt'', fd_originalName = ''a1.txt'', fd_size = 5,
       fd_uploadedAt = 100, fd_url = ''/uploads/a1.txt'', fd_type = ''text/plain''\<rparr>]"

definition empty_storage :: storage where
  "empty_storage = \<lparr>dir = Some [], read_only = False, beyond = no_path\<rparr>"

definition missing_storage :: storage where
  "missing_storage = \<lparr>dir = None, read_only = False, beyond = no_path\<rparr>"


definition family_storage :: storage where
  "family_storage =
     \<lparr>dir = Some [(''aa9.txt'', RegularFile ''note'' 10), (''abc1.png'', RegularFile ''img'' 20),
                  (''abc2.pdf'', RegularFile ''doc'' 30)],
      read_only = False, beyond = no_path\<rparr>"

definition frozen_storage :: storage where
  "frozen_storage =
     \<lparr>dir = Some [(''abc.txt'', RegularFile ''hi'' 5)], read_only = True, beyond = no_path\<rparr>"

definition locked_storage :: storage where
  "locked_storage =
     \<lparr>dir = Some [(''report.pdf'', RegularFile ''pdf'' 40)], read_only = True, beyond = no_path\<rparr>"

definition guarded_storage :: storage where
  "guarded_storage =
     \<lparr>dir = Some [(''k1.gif'', RegularFile ''g'' 1), (''k2.gif'', RegularFile ''h'' 2)],
      read_only = True, beyond = no_path\<rparr>"


definition oversize_png :: upload_file where
  "oversize_png =
     \<lparr>file_name = ''big.png'', file_type = ''image/png'',
      file_bytes = replicate (11 * 1024 * 1024) (CHR ''x'')\<rparr>"


definition sample_zip :: upload_file where
  "sample_zip = \<lparr>file_name = ''a.zip'', file_type = ''application/zip'', file_bytes = ''PK''\<rparr>"

definition sample_txt :: upload_file where
  "sample_txt = \<lparr>file_name = ''notes.txt'', file_type = ''text/plain'', file_bytes = ''hello''\<rparr>"

definition sample_result :: upload_result where
  "sample_result =
     \<lparr>r_id = ''u7'', r_filename = ''u7.txt'', r_originalName = ''notes.txt'',
      r_url = ''/uploads/u7.txt'', r_uploadedAt = Some 1000\<rparr>"

definition earlier_file :: UploadedFile where
  "earlier_file =
     \<lparr>uf_id = ''u1'', uf_fileName = ''u1.png'', uf_originalName = ''cat.png'', uf_size = 3,
      uf_type = ''image/png'', uf_url = ''/uploads/u1.png'', uf_uploadedAt = 500\<rparr>"

definition sample_widget :: widget where
  "sample_widget = \<lparr>uploadedFiles = [earlier_file], uploadStatuses = Map.empty, timers = []\<rparr>"

definition earlier_xhr_file :: xhr_file where
  "earlier_xhr_file =
     \<lparr>xf_id = ''u1'', xf_name = ''cat.png'', xf_size = 3, xf_type = ''image/png'',
      xf_url = ''/uploads/u1.png'', xf_uploadedAt = 500\<rparr>"

definition sample_xhr_widget :: xhr_widget where
  "sample_xhr_widget = \<lparr>files = [earlier_xhr_file], uploadProgress = Map.empty\<rparr>"

definition sample_xhr_response :: xhr_response where
  "sample_xhr_response = \<lparr>x_id = ''u7'', x_url = ''/uploads/u7.txt''\<rparr>"

section \<open>Properties\<close>

subsection \<open>Splitting and joining\<close>

lemma split_nonempty: "split sep s \<noteq> []"
  by (induction s) (auto split: list.splits)

lemma join_cons_head: "join sep ((a # w) # ws) = a # join sep (w # ws)"
  by (cases ws) simp_all

lemma join_split: "join sep (split sep s) = s"
  by (induction s) (auto split: list.splits simp: join_cons_head)

lemma split_no_sep: "sep \<notin> set s \<Longrightarrow> split sep s = [s]"
  by (induction s) (auto split: list.splits)

lemma split_sep_length: "sep \<in> set s \<Longrightarrow> 2 \<le> length (split sep s)"
  by (induction s) (auto split: list.splits simp: split_nonempty)

lemma join_butlast_last:
  "2 \<le> length ws \<Longrightarrow> join sep (butlast ws) @ sep # last ws = join sep ws"
proof (induction sep ws rule: join.induct)
  case (3 sep w v ws)
  then show ?case by (cases ws) simp_all
qed simp_all

lemma split_name_extension:
  "snd (split_name fileName) = Some (last (split (CHR ''.'') fileName))"
  by (simp add: split_name_def pop_def split_nonempty Let_def)

lemma split_name_ident:
  "fst (split_name fileName) = join (CHR ''.'') (butlast (split (CHR ''.'') fileName))"
  by (simp add: split_name_def pop_def split_nonempty Let_def)

lemma startsWith_iff: "startsWith s p \<longleftrightarrow> (\<exists>r. s = p @ r)"
  by (induction s p rule: startsWith.induct) auto

text \<open>
  Claim C10. In the List Endpoint's decomposition of a stored file name, a name that
  contains a dot is the recovered identifier, a dot and the recovered extension put
  together again; for a name without a dot the identifier is empty and the extension is
  the whole name.
\<close>

theorem split_name_reconstructs:
  "(CHR ''.'' \<in> set fileName \<longrightarrow>
      (\<exists>ext. snd (split_name fileName) = Some ext \<and>
             fst (split_name fileName) @ ''.'' @ ext = fileName)) \<and>
   (CHR ''.'' \<notin> set fileName \<longrightarrow> split_name fileName = ([], Some fileName))"
proof (intro conjI impI)
  assume dot: "CHR ''.'' \<in> set fileName"
  let ?ws = "split (CHR ''.'') fileName"
  have "join (CHR ''.'') (butlast ?ws) @ CHR ''.'' # last ?ws = join (CHR ''.'') ?ws"
    using dot by (intro join_butlast_last split_sep_length)
  then have "fst (split_name fileName) @ ''.'' @ last ?ws = fileName"
    by (simp add: split_name_ident join_split)
  then show "\<exists>ext. snd (split_name fileName) = Some ext \<and>
             fst (split_name fileName) @ ''.'' @ ext = fileName"
    using split_name_extension by blast
next
  assume "CHR ''.'' \<notin> set fileName"
  then have "split (CHR ''.'') fileName = [fileName]" by (rule split_no_sep)
  then show "split_name fileName = ([], Some fileName)"
    by (simp add: split_name_def pop_def Let_def)
qed

theorem split_name_reconstructs_witness:
  "CHR ''.'' \<in> set ''3f2a.tar.gz'' \<and>
   (\<exists>ext. snd (split_name ''3f2a.tar.gz'') = Some ext \<and>
          fst (split_name ''3f2a.tar.gz'') @ ''.'' @ ext = ''3f2a.tar.gz'') \<and>
   CHR ''.'' \<notin> set ''README'' \<and> split_name ''README'' = ([], Some ''README'')"
  using split_name_reconstructs [of "''3f2a.tar.gz''"] split_name_reconstructs [of "''README''"]
  by simp

subsection \<open>List Endpoint\<close>

lemma getFileType_lookup: "getFileType ext = mime_lookup (toLowerCase ext)"
  by (simp add: getFileType_def mime_lookup_def mime_table_def array_includes_def Let_def)

lemma descriptor_type:
  "fd_type (descriptor fileName st) =
     mime_lookup (toLowerCase (last (split (CHR ''.'') fileName)))"
proof -
  obtain i e where se: "split_name fileName = (i, e)" by (cases "split_name fileName")
  with split_name_extension [of fileName]
  have "e = Some (last (split (CHR ''.'') fileName))" by simp
  with se show ?thesis by (simp add: descriptor_def or_empty_def getFileType_lookup)
qed

lemma descriptor_fileName: "fd_fileName (descriptor fileName st) = fileName"
  by (cases "split_name fileName") (simp add: descriptor_def)

lemma set_insert_cmp: "set (insert_cmp cmp x xs) = insert x (set xs)"
  by (induction xs) auto

lemma set_sort_cmp: "set (sort_cmp cmp xs) = set xs"
  by (induction xs) (auto simp: set_insert_cmp)

lemma drop_nulls_set: "x \<in> set (drop_nulls xs) \<longleftrightarrow> Some x \<in> set xs"
  by (induction xs rule: drop_nulls.induct) auto

lemma GET_entries:
  assumes "GET fs = ListOk fl" and "d \<in> set fl"
  shows "\<exists>fileName st. d = descriptor fileName st"
proof (cases "readdir fs")
  case (Inl e)
  with assms show ?thesis by (simp add: GET_def)
next
  case (Inr names)
  with assms(1) have "fl = sort_cmp newest_first (drop_nulls (map (describe_entry fs) names))"
    by (simp add: GET_def Let_def)
  with assms(2) have "Some d \<in> set (map (describe_entry fs) names)"
    by (simp add: set_sort_cmp drop_nulls_set)
  then obtain n where "describe_entry fs n = Some d" by auto
  then show ?thesis by (auto simp: describe_entry_def split: sum.splits)
qed

lemma GET_sample: "GET sample_storage = ListOk sample_listing"
  by code_simp

text \<open>
  Claim C6. For every stored file name, the type in the descriptor that the List Endpoint
  returns is looked up from the lower-cased final dot-separated segment of the name in the
  fixed table (jpg and jpeg, png, gif, webp, pdf, txt and md, doc, docx), and is
  \<^verbatim>\<open>application/octet-stream\<close> for every other extension.
\<close>

theorem list_type_from_extension:
  assumes "GET fs = ListOk fl" and "d \<in> set fl"
  shows "fd_type d = mime_lookup (toLowerCase (last (split (CHR ''.'') (fd_fileName d))))"
proof -
  from GET_entries [OF assms] obtain fileName st where "d = descriptor fileName st" by blast
  then show ?thesis by (simp add: descriptor_type descriptor_fileName)
qed

theorem list_type_from_extension_witness:
  "GET sample_storage = ListOk sample_listing \<and> png_descriptor \<in> set sample_listing \<and>
   fd_type png_descriptor =
     mime_lookup (toLowerCase (last (split (CHR ''.'') (fd_fileName png_descriptor)))) \<and>
   fd_type png_descriptor = ''image/png'' \<and> fd_fileName png_descriptor = ''b2.PNG''"
proof -
  have m: "png_descriptor \<in> set sample_listing" by (simp add: sample_listing_def)
  from list_type_from_extension [OF GET_sample m] GET_sample m show ?thesis
    by (simp add: png_descriptor_def)
qed

lemma sorted_insert_newest:
  "sorted_wrt (\<lambda>a b. fd_uploadedAt b \<le> fd_uploadedAt a) xs \<Longrightarrow>
   sorted_wrt (\<lambda>a b. fd_uploadedAt b \<le> fd_uploadedAt a) (insert_cmp newest_first x xs)"
  by (induction xs) (auto simp: set_insert_cmp newest_first_def)

lemma sorted_sort_newest:
  "sorted_wrt (\<lambda>a b. fd_uploadedAt b \<le> fd_uploadedAt a) (sort_cmp newest_first xs)"
  by (induction xs) (auto simp: sorted_insert_newest)

text \<open>
  Claim C4. The array a \<^verbatim>\<open>GET /api/files\<close> response returns is in descending order of
  creation time: an entry never comes after one that is older than it, so of two entries
  with different creation times the later one comes first.
\<close>

theorem list_newest_first:
  assumes "GET fs = ListOk fl" and "i < j" and "j < length fl"
  shows "fd_uploadedAt (fl ! j) \<le> fd_uploadedAt (fl ! i)"
proof -
  have "sorted_wrt (\<lambda>a b. fd_uploadedAt b \<le> fd_uploadedAt a) fl"
    using assms(1) by (auto simp: GET_def Let_def sorted_sort_newest split: sum.splits)
  then show ?thesis using assms(2,3) by (simp add: sorted_wrt_iff_nth_less)
qed

theorem list_newest_first_witness:
  "GET sample_storage = ListOk sample_listing \<and> (0::nat) < 2 \<and> 2 < length sample_listing \<and>
   fd_uploadedAt (sample_listing ! 2) \<le> fd_uploadedAt (sample_listing ! 0) \<and>
   map fd_uploadedAt sample_listing = [300, 200, 100]"
proof -
  have l: "2 < length sample_listing" by (simp add: sample_listing_def)
  from list_newest_first [OF GET_sample _ l, of 0] GET_sample l show ?thesis
    by (simp add: sample_listing_def png_descriptor_def)
qed

text \<open>
  Claim C2. When the Storage Directory does not exist or cannot be opened, the List
  Endpoint answers with success and the empty list; the answer for a missing directory is
  the answer for a directory without entries.
\<close>

theorem list_missing_directory:
  "(readdir fs = Inl e \<longrightarrow> GET fs = ListOk []) \<and>
   GET (fs\<lparr>dir := None\<rparr>) = GET (fs\<lparr>dir := Some []\<rparr>)"
  by (simp add: GET_def readdir_def)

theorem list_missing_directory_witness:
  "readdir missing_storage = Inl ENOENT \<and> GET missing_storage = ListOk [] \<and>
   GET empty_storage = ListOk []"
  using list_missing_directory [of missing_storage ENOENT]
  by (auto simp: missing_storage_def empty_storage_def readdir_def)

subsection \<open>Upload Endpoint\<close>

lemma allowedTypes_set:
  "array_includes allowedTypes t \<longleftrightarrow>
   t \<in> {''image/jpeg'', ''image/png'', ''image/gif'', ''image/webp'', ''application/pdf'',
        ''text/plain'', ''text/markdown'', ''application/msword'',
        ''application/vnd.openxmlformats-officedocument.wordprocessingml.document''}"
  unfolding array_includes_def allowedTypes_def by simp

lemma POST_no_file:
  "POST (Form None) uuid now fs = (UploadError 400 ''No file received.'', fs)"
  by (simp add: POST_def POST_try_def)

lemma POST_too_large:
  "10 * 1024 * 1024 < file_size file \<Longrightarrow>
   POST (Form (Some (FileEntry file))) uuid now fs =
     (UploadError 400 ''File too large. Max size is 10MB.'', fs)"
  by (simp add: POST_def POST_try_def)

lemma POST_bad_type:
  "\<not> array_includes allowedTypes (file_type file) \<Longrightarrow>
   POST (Form (Some (FileEntry file))) uuid now fs =
     (UploadError 400 (if 10 * 1024 * 1024 < file_size file
                       then ''File too large. Max size is 10MB.''
                       else ''File type not allowed.''), fs)"
  by (simp add: POST_def POST_try_def)

text \<open>
  Claim C1. A \<^verbatim>\<open>POST /api/upload\<close> whose form has no \<^verbatim>\<open>file\<close> field is answered with
  400 and the message that no file was received; a file of more than 10 MiB with 400 and
  the message that it is too large; a file whose declared type is outside the allow-list
  with 400, and with the message that the type is not allowed unless the size check,
  which comes first, has already answered. In each case the storage is left as it was.
\<close>

theorem upload_rejects:
  "POST (Form None) uuid now fs = (UploadError 400 ''No file received.'', fs) \<and>
   (10 * 1024 * 1024 < file_size file \<longrightarrow>
      POST (Form (Some (FileEntry file))) uuid now fs =
        (UploadError 400 ''File too large. Max size is 10MB.'', fs)) \<and>
   (file_type file \<notin> {''image/jpeg'', ''image/png'', ''image/gif'', ''image/webp'',
        ''application/pdf'', ''text/plain'', ''text/markdown'', ''application/msword'',
        ''application/vnd.openxmlformats-officedocument.wordprocessingml.document''} \<longrightarrow>
      POST (Form (Some (FileEntry file))) uuid now fs =
        (UploadError 400 (if 10 * 1024 * 1024 < file_size file
                          then ''File too large. Max size is 10MB.''
                          else ''File type not allowed.''), fs))"
  using POST_no_file POST_too_large POST_bad_type allowedTypes_set by blast

theorem upload_rejects_witness:
  "10 * 1024 * 1024 < file_size oversize_png \<and>
   POST (Form (Some (FileEntry oversize_png))) ''u1'' 7 empty_storage =
     (UploadError 400 ''File too large. Max size is 10MB.'', empty_storage) \<and>
   file_type sample_zip \<notin> {''image/jpeg'', ''image/png'', ''image/gif'', ''image/webp'',
        ''application/pdf'', ''text/plain'', ''text/markdown'', ''application/msword'',
        ''application/vnd.openxmlformats-officedocument.wordprocessingml.document''} \<and>
   POST (Form (Some (FileEntry sample_zip))) ''u1'' 7 empty_storage =
     (UploadError 400 ''File type not allowed.'', empty_storage)"
  using upload_rejects [of "''u1''" 7 empty_storage oversize_png]
        upload_rejects [of "''u1''" 7 empty_storage sample_zip]
  by (simp add: file_size_def oversize_png_def sample_zip_def)















subsection \<open>Delete Endpoint\<close>

lemma find_first:
  "names = pre @ f # post \<Longrightarrow> \<forall>g \<in> set pre. \<not> P g \<Longrightarrow> P f \<Longrightarrow> List.find P names = Some f"
  by (induction pre arbitrary: names) auto

lemma find_none: "\<forall>g \<in> set names. \<not> P g \<Longrightarrow> List.find P names = None"
  by (induction names) auto

lemma DELETE_unreadable:
  "readdir fs = Inl e \<Longrightarrow>
   DELETE (Inr fileId) fs = (DeleteError 404 ''File not found or already deleted'', fs)"
  by (simp add: DELETE_def DELETE_try_def)

lemma DELETE_no_match:
  "readdir fs = Inr names \<Longrightarrow> \<forall>g \<in> set names. \<not> startsWith g fileId \<Longrightarrow>
   DELETE (Inr fileId) fs = (DeleteError 404 ''File not found'', fs)"
  by (simp add: DELETE_def DELETE_try_def find_none truthy_def)

lemma DELETE_match:
  assumes "readdir fs = Inr names" and "names = pre @ f # post"
    and "\<forall>g \<in> set pre. \<not> startsWith g fileId" and "startsWith f fileId" and "f \<noteq> []"
  shows "DELETE (Inr fileId) fs =
     (case unlink fs f of
        Inl e \<Rightarrow> (DeleteError 404 ''File not found or already deleted'', fs)
      | Inr fs' \<Rightarrow> (DeleteOk ''File deleted successfully'', fs'))"
proof -
  have "List.find (\<lambda>file. startsWith file fileId) names = Some f"
    using assms(2,3,4) by (rule find_first)
  then show ?thesis
    using assms(1,5) by (simp add: DELETE_def DELETE_try_def truthy_def split: sum.splits)
qed

lemma unlink_effect:
  "unlink fs f = Inr fs' \<Longrightarrow> readdir fs = Inr names \<Longrightarrow>
   readdir fs' = Inr (filter (\<lambda>n. n \<noteq> f) names)"
  by (auto simp: unlink_def readdir_def filter_map comp_def split: option.splits if_splits)

text \<open>
  Claim C3, as amended. \<^verbatim>\<open>DELETE /api/upload/{id}\<close> scans the directory and takes the
  first entry whose (non-empty) name starts with the identifier. When there is one and
  its removal succeeds, the file is removed and success is reported; when its removal
  fails, nothing is removed and the answer is 404; when no entry matches, or the
  directory cannot be read, the answer is 404.
\<close>

theorem delete_first_match:
  "(readdir fs = Inr names \<and> names = pre @ f # post \<and>
    (\<forall>g \<in> set pre. \<not> startsWith g fileId) \<and> startsWith f fileId \<and> f \<noteq> [] \<and>
    unlink fs f = Inr fs' \<longrightarrow>
      DELETE (Inr fileId) fs = (DeleteOk ''File deleted successfully'', fs') \<and>
      readdir fs' = Inr (filter (\<lambda>n. n \<noteq> f) names)) \<and>
   (readdir fs = Inr names \<and> names = pre @ f # post \<and>
    (\<forall>g \<in> set pre. \<not> startsWith g fileId) \<and> startsWith f fileId \<and> f \<noteq> [] \<and>
    unlink fs f = Inl e' \<longrightarrow>
      DELETE (Inr fileId) fs = (DeleteError 404 ''File not found or already deleted'', fs)) \<and>
   (readdir fs = Inr names \<and> (\<forall>g \<in> set names. \<not> startsWith g fileId) \<longrightarrow>
      DELETE (Inr fileId) fs = (DeleteError 404 ''File not found'', fs)) \<and>
   (readdir fs = Inl e \<longrightarrow>
      DELETE (Inr fileId) fs = (DeleteError 404 ''File not found or already deleted'', fs))"
proof (intro conjI impI)
  assume a: "readdir fs = Inr names \<and> names = pre @ f # post \<and>
    (\<forall>g \<in> set pre. \<not> startsWith g fileId) \<and> startsWith f fileId \<and> f \<noteq> [] \<and>
    unlink fs f = Inr fs'"
  then have "DELETE (Inr fileId) fs =
     (case unlink fs f of
        Inl e \<Rightarrow> (DeleteError 404 ''File not found or already deleted'', fs)
      | Inr fs' \<Rightarrow> (DeleteOk ''File deleted successfully'', fs'))"
    using DELETE_match [of fs names pre f post fileId] by blast
  with a show "DELETE (Inr fileId) fs = (DeleteOk ''File deleted successfully'', fs')" by simp
  from a show "readdir fs' = Inr (filter (\<lambda>n. n \<noteq> f) names)"
    using unlink_effect [of fs f fs' names] by blast
next
  assume a: "readdir fs = Inr names \<and> names = pre @ f # post \<and>
    (\<forall>g \<in> set pre. \<not> startsWith g fileId) \<and> startsWith f fileId \<and> f \<noteq> [] \<and>
    unlink fs f = Inl e'"
  then have "DELETE (Inr fileId) fs =
     (case unlink fs f of
        Inl e \<Rightarrow> (DeleteError 404 ''File not found or already deleted'', fs)
      | Inr fs' \<Rightarrow> (DeleteOk ''File deleted successfully'', fs'))"
    using DELETE_match [of fs names pre f post fileId] by blast
  with a show "DELETE (Inr fileId) fs =
      (DeleteError 404 ''File not found or already deleted'', fs)" by simp
next
  assume "readdir fs = Inr names \<and> (\<forall>g \<in> set names. \<not> startsWith g fileId)"
  then show "DELETE (Inr fileId) fs = (DeleteError 404 ''File not found'', fs)"
    using DELETE_no_match [of fs names fileId] by blast
next
  assume "readdir fs = Inl e"
  then show "DELETE (Inr fileId) fs = (DeleteError 404 ''File not found or already deleted'', fs)"
    by (rule DELETE_unreadable)
qed

theorem delete_first_match_witness:
  "readdir family_storage = Inr ([''aa9.txt''] @ ''abc1.png'' # [''abc2.pdf'']) \<and>
   \<not> startsWith ''aa9.txt'' ''abc'' \<and> startsWith ''abc1.png'' ''abc'' \<and>
   DELETE (Inr ''abc'') family_storage =
     (DeleteOk ''File deleted successfully'',
      family_storage\<lparr>dir := Some [(''aa9.txt'', RegularFile ''note'' 10),
                                   (''abc2.pdf'', RegularFile ''doc'' 30)]\<rparr>) \<and>
   readdir frozen_storage = Inr ([] @ ''abc.txt'' # []) \<and>
   unlink frozen_storage ''abc.txt'' = Inl EACCES \<and>
   DELETE (Inr ''ab'') frozen_storage =
     (DeleteError 404 ''File not found or already deleted'', frozen_storage) \<and>
   DELETE (Inr ''q'') family_storage = (DeleteError 404 ''File not found'', family_storage) \<and>
   readdir missing_storage = Inl ENOENT \<and>
   DELETE (Inr ''abc'') missing_storage =
     (DeleteError 404 ''File not found or already deleted'', missing_storage)"
proof -
  have r: "readdir family_storage = Inr ([''aa9.txt''] @ ''abc1.png'' # [''abc2.pdf''])"
    by (simp add: readdir_def family_storage_def)
  have u: "unlink family_storage ''abc1.png'' =
      Inr (family_storage\<lparr>dir := Some [(''aa9.txt'', RegularFile ''note'' 10),
                                        (''abc2.pdf'', RegularFile ''doc'' 30)]\<rparr>)"
    by (simp add: unlink_def family_storage_def)
  have rf: "readdir frozen_storage = Inr ([] @ ''abc.txt'' # [])"
    by (simp add: readdir_def frozen_storage_def)
  have uf: "unlink frozen_storage ''abc.txt'' = Inl EACCES"
    by (simp add: unlink_def frozen_storage_def)
  have m: "readdir missing_storage = Inl ENOENT"
    by (simp add: readdir_def missing_storage_def)
  from delete_first_match [where fs = family_storage
        and names = "[''aa9.txt''] @ ''abc1.png'' # [''abc2.pdf'']"
        and pre = "[''aa9.txt'']" and f = "''abc1.png''" and post = "[''abc2.pdf'']"
        and fileId = "''abc''" and e = ENOENT and e' = EACCES
        and fs' = "family_storage\<lparr>dir := Some [(''aa9.txt'', RegularFile ''note'' 10),
                                                 (''abc2.pdf'', RegularFile ''doc'' 30)]\<rparr>"]
    delete_first_match [where fs = frozen_storage and names = "[] @ ''abc.txt'' # []"
        and pre = "[]" and f = "''abc.txt''" and post = "[]" and fileId = "''ab''"
        and e = ENOENT and e' = EACCES and fs' = frozen_storage]
    delete_first_match [where fs = family_storage
        and names = "[''aa9.txt''] @ ''abc1.png'' # [''abc2.pdf'']"
        and pre = "[]" and f = "''aa9.txt''" and post = "[''abc1.png'', ''abc2.pdf'']"
        and fileId = "''q''" and e = ENOENT and e' = EACCES and fs' = family_storage]
    delete_first_match [where fs = missing_storage and names = "[]" and pre = "[]"
        and f = "[]" and post = "[]" and fileId = "''abc''" and e = ENOENT and e' = EACCES
        and fs' = missing_storage]
    r u rf uf m
  show ?thesis by simp
qed

text \<open>
  The claim as first stated fails when the removal is refused: an entry starts with the
  identifier, nothing is removed and the answer is 404.
\<close>

theorem delete_refused_counterexample:
  "readdir frozen_storage = Inr [''abc.txt''] \<and> startsWith ''abc.txt'' ''abc'' \<and>
   DELETE (Inr ''abc'') frozen_storage =
     (DeleteError 404 ''File not found or already deleted'', frozen_storage)"
  by (simp add: DELETE_def DELETE_try_def frozen_storage_def readdir_def truthy_def unlink_def)

text \<open>
  Claim C7, as amended. When a matching entry is found and its removal fails, whatever
  the failure, the Delete Endpoint answers 404 and leaves the storage as it was; it
  answers 500 exactly when the request parameters cannot be obtained.
\<close>

theorem delete_failure_answers:
  "(readdir fs = Inr names \<and> names = pre @ f # post \<and>
    (\<forall>g \<in> set pre. \<not> startsWith g fileId) \<and> startsWith f fileId \<and> f \<noteq> [] \<and>
    unlink fs f = Inl e \<longrightarrow>
      DELETE (Inr fileId) fs = (DeleteError 404 ''File not found or already deleted'', fs)) \<and>
   (fst (DELETE params fs) = DeleteError 500 ''Delete failed.'') = (\<exists>e'. params = Inl e')"
proof (intro conjI impI)
  assume a: "readdir fs = Inr names \<and> names = pre @ f # post \<and>
    (\<forall>g \<in> set pre. \<not> startsWith g fileId) \<and> startsWith f fileId \<and> f \<noteq> [] \<and>
    unlink fs f = Inl e"
  then have "DELETE (Inr fileId) fs =
     (case unlink fs f of
        Inl e \<Rightarrow> (DeleteError 404 ''File not found or already deleted'', fs)
      | Inr fs' \<Rightarrow> (DeleteOk ''File deleted successfully'', fs'))"
    using DELETE_match [of fs names pre f post fileId] by blast
  with a show "DELETE (Inr fileId) fs =
      (DeleteError 404 ''File not found or already deleted'', fs)" by simp
next
  show "(fst (DELETE params fs) = DeleteError 500 ''Delete failed.'') = (\<exists>e'. params = Inl e')"
    by (cases params)
       (auto simp: DELETE_def DELETE_try_def Let_def split: sum.splits prod.splits)
qed

theorem delete_failure_answers_witness:
  "readdir locked_storage = Inr ([] @ ''report.pdf'' # []) \<and>
   startsWith ''report.pdf'' ''report'' \<and> unlink locked_storage ''report.pdf'' = Inl EACCES \<and>
   DELETE (Inr ''report'') locked_storage =
     (DeleteError 404 ''File not found or already deleted'', locked_storage) \<and>
   fst (DELETE (Inl TypeError) locked_storage) = DeleteError 500 ''Delete failed.''"
proof -
  have r: "readdir locked_storage = Inr ([] @ ''report.pdf'' # [])"
    by (simp add: readdir_def locked_storage_def)
  have u: "unlink locked_storage ''report.pdf'' = Inl EACCES"
    by (simp add: unlink_def locked_storage_def)
  from delete_failure_answers [of locked_storage "[] @ ''report.pdf'' # []" "[]" "''report.pdf''"
      "[]" "''report''" EACCES "Inl TypeError"] r u
  show ?thesis by simp
qed

text \<open>
  The claim as first stated fails on a read-only storage: the entry is found, its
  removal fails with a permission error, and the answer is 404, not 500.
\<close>

theorem delete_failure_counterexample:
  "readdir locked_storage = Inr [''report.pdf''] \<and> startsWith ''report.pdf'' ''report'' \<and>
   unlink locked_storage ''report.pdf'' = Inl EACCES \<and>
   fst (DELETE (Inr ''report'') locked_storage) =
     DeleteError 404 ''File not found or already deleted'' \<and>
   fst (DELETE (Inr ''report'') locked_storage) \<noteq> DeleteError 500 ''Delete failed.''"
  by (simp add: DELETE_def DELETE_try_def locked_storage_def readdir_def truthy_def unlink_def)

text \<open>
  Claim C9, as amended. On a storage directory that is not empty, a
  \<^verbatim>\<open>DELETE /api/upload/{id}\<close> with the empty identifier matches the first entry of the
  listing, since every name starts with the empty string; when the removal of that
  entry succeeds, the file is removed and success is reported.
\<close>

theorem delete_empty_identifier:
  assumes "readdir fs = Inr (f # rest)" and "f \<noteq> []" and "unlink fs f = Inr fs'"
  shows "List.find (\<lambda>file. startsWith file []) (f # rest) = Some f \<and>
         DELETE (Inr []) fs = (DeleteOk ''File deleted successfully'', fs') \<and>
         readdir fs' = Inr (filter (\<lambda>n. n \<noteq> f) rest)"
proof -
  have "DELETE (Inr []) fs =
     (case unlink fs f of
        Inl e \<Rightarrow> (DeleteError 404 ''File not found or already deleted'', fs)
      | Inr fs' \<Rightarrow> (DeleteOk ''File deleted successfully'', fs'))"
    using assms(1,2) by (intro DELETE_match [where pre = "[]" and post = rest]) simp_all
  moreover have "readdir fs' = Inr (filter (\<lambda>n. n \<noteq> f) (f # rest))"
    using assms(3,1) by (rule unlink_effect)
  ultimately show ?thesis using assms(3) by simp
qed

theorem delete_empty_identifier_witness:
  "readdir family_storage = Inr (''aa9.txt'' # [''abc1.png'', ''abc2.pdf'']) \<and>
   DELETE (Inr []) family_storage =
     (DeleteOk ''File deleted successfully'',
      family_storage\<lparr>dir := Some [(''abc1.png'', RegularFile ''img'' 20),
                                   (''abc2.pdf'', RegularFile ''doc'' 30)]\<rparr>)"
proof -
  have r: "readdir family_storage = Inr (''aa9.txt'' # [''abc1.png'', ''abc2.pdf''])"
    by (simp add: readdir_def family_storage_def)
  have u: "unlink family_storage ''aa9.txt'' =
      Inr (family_storage\<lparr>dir := Some [(''abc1.png'', RegularFile ''img'' 20),
                                        (''abc2.pdf'', RegularFile ''doc'' 30)]\<rparr>)"
    by (simp add: unlink_def family_storage_def)
  from delete_empty_identifier [OF r _ u] r show ?thesis by simp
qed

text \<open>
  The claim as first stated fails on a read-only storage that is not empty: the first
  entry is matched, nothing is removed and the answer is 404.
\<close>

theorem delete_empty_identifier_counterexample:
  "readdir guarded_storage = Inr [''k1.gif'', ''k2.gif''] \<and>
   DELETE (Inr []) guarded_storage =
     (DeleteError 404 ''File not found or already deleted'', guarded_storage)"
  by (simp add: DELETE_def DELETE_try_def guarded_storage_def readdir_def truthy_def unlink_def)

subsection \<open>Upload Widget\<close>

lemma error_message_nonempty: "error_message e \<noteq> []"
  by (auto simp: error_message_def split: option.splits)

lemma onDrop_file_success:
  "onDrop_file file (OkJson result) now w =
     w\<lparr>uploadStatuses := (uploadStatuses w)(file_name file \<mapsto>
           \<lparr>us_status = Success, us_progress = 100, us_message = Some ''Upload complete!''\<rparr>),
        uploadedFiles := \<lparr>uf_id = r_id result, uf_fileName = r_filename result,
                         uf_originalName = r_originalName result,
                         uf_size = file_size file, uf_type = file_type file,
                         uf_url = r_url result,
                         uf_uploadedAt = (case r_uploadedAt result of None \<Rightarrow> now | Some t \<Rightarrow> t)\<rparr>
                        # uploadedFiles w,
        timers := timers w @ [file_name file]\<rparr>"
  by (simp add: onDrop_file_def Let_def)

lemma onDrop_file_failure:
  assumes "failed outcome"
  shows "\<exists>m. m \<noteq> [] \<and> onDrop_file file outcome now w =
     w\<lparr>uploadStatuses := (uploadStatuses w)(file_name file \<mapsto>
           \<lparr>us_status = Error, us_progress = 0, us_message = Some m\<rparr>)\<rparr>"
proof (cases outcome)
  case (NotOk e)
  then show ?thesis
    by (intro exI [of _ "error_message e"]) (simp add: onDrop_file_def error_message_nonempty)
next
  case (OkJson result)
  with assms show ?thesis by (simp add: failed_def)
qed (intro exI [of _ "''Upload failed''"], simp add: onDrop_file_def)+

lemma timeout_fires_other:
  "name \<notin> set (timers w) \<Longrightarrow>
   uploadStatuses (timeout_fires n w) name = uploadStatuses w name \<and>
   name \<notin> set (timers (timeout_fires n w))"
  by (auto simp: timeout_fires_def dest: notin_set_remove1)

lemma timeouts_fire_other:
  "name \<notin> set (timers w) \<Longrightarrow>
   uploadStatuses (timeouts_fire ns w) name = uploadStatuses w name"
proof (induction ns arbitrary: w)
  case Nil
  then show ?case by simp
next
  case (Cons n ns)
  from timeout_fires_other [OF Cons.prems, of n]
  have a: "uploadStatuses (timeout_fires n w) name = uploadStatuses w name"
    and b: "name \<notin> set (timers (timeout_fires n w))" by simp_all
  from Cons.IH [OF b] a show ?case by simp
qed

text \<open>
  Claim C8, as amended. In the variant of the Upload Widget that uses \<^verbatim>\<open>fetch\<close>: an
  upload that completes puts the new descriptor at the head of the displayed list, sets
  the status of the file to success and schedules a timer; when the timer fires the
  status entry is cleared and the list stays. A failed upload sets the status to error
  with a message, changes neither the list nor the timers, and, when no timer is pending
  for that file name, keeps the error status whatever timers fire. In the variant that
  uses \<^verbatim>\<open>XMLHttpRequest\<close>: an upload answered with 200 puts the new descriptor at the
  end of the list, and any other answer changes nothing.
\<close>

theorem widget_upload_outcomes:
  "(let w' = onDrop_file file (OkJson result) now w in
      (\<exists>d. uploadedFiles w' = d # uploadedFiles w \<and> uf_id d = r_id result) \<and>
      uploadStatuses w' (file_name file) =
        Some \<lparr>us_status = Success, us_progress = 100, us_message = Some ''Upload complete!''\<rparr> \<and>
      timers w' = timers w @ [file_name file] \<and>
      uploadStatuses (timeout_fires (file_name file) w') (file_name file) = None \<and>
      uploadedFiles (timeout_fires (file_name file) w') = uploadedFiles w') \<and>
   (failed outcome \<longrightarrow>
      (let w' = onDrop_file file outcome now w in
         (\<exists>m. m \<noteq> [] \<and> uploadStatuses w' (file_name file) =
                Some \<lparr>us_status = Error, us_progress = 0, us_message = Some m\<rparr>) \<and>
         timers w' = timers w \<and> uploadedFiles w' = uploadedFiles w \<and>
         (file_name file \<notin> set (timers w) \<longrightarrow>
            (\<forall>ns. uploadStatuses (timeouts_fire ns w') (file_name file) =
                  uploadStatuses w' (file_name file))))) \<and>
   (\<exists>d. files (xhr_load file 200 (Some response) now x) = files x @ [d] \<and>
        xf_id d = x_id response) \<and>
   (code \<noteq> 200 \<longrightarrow> xhr_load file code body now x = x)"
proof (intro conjI impI)
  show "let w' = onDrop_file file (OkJson result) now w in
      (\<exists>d. uploadedFiles w' = d # uploadedFiles w \<and> uf_id d = r_id result) \<and>
      uploadStatuses w' (file_name file) =
        Some \<lparr>us_status = Success, us_progress = 100, us_message = Some ''Upload complete!''\<rparr> \<and>
      timers w' = timers w @ [file_name file] \<and>
      uploadStatuses (timeout_fires (file_name file) w') (file_name file) = None \<and>
      uploadedFiles (timeout_fires (file_name file) w') = uploadedFiles w'"
    unfolding Let_def onDrop_file_success by (simp add: timeout_fires_def)
next
  assume f: "failed outcome"
  from onDrop_file_failure [OF f] obtain m where m: "m \<noteq> []"
    and eq: "onDrop_file file outcome now w =
     w\<lparr>uploadStatuses := (uploadStatuses w)(file_name file \<mapsto>
           \<lparr>us_status = Error, us_progress = 0, us_message = Some m\<rparr>)\<rparr>" by blast
  have keep: "file_name file \<notin> set (timers w) \<longrightarrow>
      (\<forall>ns. uploadStatuses (timeouts_fire ns (onDrop_file file outcome now w)) (file_name file) =
            uploadStatuses (onDrop_file file outcome now w) (file_name file))"
    using timeouts_fire_other [of "file_name file" "onDrop_file file outcome now w"]
    by (simp add: eq)
  show "let w' = onDrop_file file outcome now w in
         (\<exists>m. m \<noteq> [] \<and> uploadStatuses w' (file_name file) =
                Some \<lparr>us_status = Error, us_progress = 0, us_message = Some m\<rparr>) \<and>
         timers w' = timers w \<and> uploadedFiles w' = uploadedFiles w \<and>
         (file_name file \<notin> set (timers w) \<longrightarrow>
            (\<forall>ns. uploadStatuses (timeouts_fire ns w') (file_name file) =
                  uploadStatuses w' (file_name file)))"
    unfolding Let_def using keep m by (simp add: eq)
next
  show "\<exists>d. files (xhr_load file 200 (Some response) now x) = files x @ [d] \<and>
            xf_id d = x_id response"
    by (simp add: xhr_load_def Let_def)
next
  assume "code \<noteq> 200"
  then show "xhr_load file code body now x = x" by (simp add: xhr_load_def)
qed

theorem widget_upload_outcomes_witness:
  "failed (NotOk (Some ''File too large. Max size is 10MB.'')) \<and>
   file_name sample_txt \<notin> set (timers sample_widget) \<and>
   uploadStatuses (timeouts_fire [''notes.txt'', ''cat.png'']
       (onDrop_file sample_txt (NotOk (Some ''File too large. Max size is 10MB.'')) 1000
          sample_widget))
     (file_name sample_txt) =
   uploadStatuses
     (onDrop_file sample_txt (NotOk (Some ''File too large. Max size is 10MB.'')) 1000
        sample_widget)
     (file_name sample_txt) \<and>
   (404::nat) \<noteq> 200 \<and> xhr_load sample_txt 404 None 1000 sample_xhr_widget = sample_xhr_widget"
proof -
  have f: "failed (NotOk (Some ''File too large. Max size is 10MB.''))"
    by (simp add: failed_def)
  have t: "file_name sample_txt \<notin> set (timers sample_widget)"
    by (simp add: sample_widget_def)
  have n: "(404::nat) \<noteq> 200" by simp
  from widget_upload_outcomes [of sample_txt sample_result 1000 sample_widget
      "NotOk (Some ''File too large. Max size is 10MB.'')" sample_xhr_response
      sample_xhr_widget 404 None]
    f t n
  show ?thesis unfolding Let_def by blast
qed

text \<open>
  The claim as first stated fails in the variant that uses \<^verbatim>\<open>XMLHttpRequest\<close>: after
  a completed upload the earlier file is still at the head of the list and the new one
  is last.
\<close>

theorem widget_head_counterexample:
  "files (xhr_load sample_txt 200 (Some sample_xhr_response) 1000 sample_xhr_widget) =
     [earlier_xhr_file,
      \<lparr>xf_id = ''u7'', xf_name = ''notes.txt'', xf_size = 5, xf_type = ''text/plain'',
       xf_url = ''/uploads/u7.txt'', xf_uploadedAt = 1000\<rparr>] \<and>
   xf_id (hd (files (xhr_load sample_txt 200 (Some sample_xhr_response) 1000 sample_xhr_widget)))
     = ''u1''"
  by (simp add: xhr_load_def sample_txt_def sample_xhr_response_def sample_xhr_widget_def
      file_size_def Let_def earlier_xhr_file_def)

end
